theory Spec2Isabelle
  imports Main
begin

section \<open>Platform values: numbers, strings, truthiness\<close>

text \<open>
  The numbers of the remote-queries manager are byte counts, result counts, artifact
  identifiers and millisecond time stamps: non-negative integers, modelled as \<open>nat\<close>.
  An optional field (\<open>sha?: string\<close>, \<open>sarifFileSize?: number\<close>) is an \<open>option\<close>;
  \<open>None\<close> is JavaScript's \<open>undefined\<close>.
\<close>

text \<open>
  \<open>String(n)\<close>, \<open>n.toString()\<close> and the interpolation of \<open>n\<close> in a template
  literal, for a non-negative integer: its decimal digits, most significant first.
\<close>

definition digit_char :: "nat \<Rightarrow> char" where
  "digit_char d = ''0123456789'' ! d"

fun toString :: "nat \<Rightarrow> string" where
  "toString n =
     (if n < 10 then [digit_char n]
      else toString (n div 10) @ [digit_char (n mod 10)])"

declare toString.simps [simp del]

text \<open>The value of a string of decimal digits, read from the left.\<close>

definition is_digit :: "char \<Rightarrow> bool" where
  "is_digit c = (c \<in> set ''0123456789'')"

definition digit_value :: "char \<Rightarrow> nat" where
  "digit_value c = of_char c - 48"

definition decimal_value :: "string \<Rightarrow> nat" where
  "decimal_value s = foldl (\<lambda>acc c. 10 * acc + digit_value c) 0 s"

text \<open>Truthiness of an optional number (\<open>x ? a : b\<close>): \<open>undefined\<close> and \<open>0\<close> are falsy.\<close>

definition truthy_number :: "nat option \<Rightarrow> bool" where
  "truthy_number x = (case x of None \<Rightarrow> False | Some n \<Rightarrow> n \<noteq> 0)"

text \<open>Truthiness of an optional string: \<open>undefined\<close> and the empty string are falsy.\<close>

definition truthy_string :: "string option \<Rightarrow> bool" where
  "truthy_string x = (case x of None \<Rightarrow> False | Some s \<Rightarrow> s \<noteq> [])"

text \<open>\<open>s.includes(sub)\<close>: \<open>sub\<close> occurs in \<open>s\<close> as a contiguous run of characters.\<close>

fun string_includes :: "string \<Rightarrow> string \<Rightarrow> bool" where
  "string_includes [] sub = (sub = [])"
| "string_includes (c # cs) sub = (take (length sub) (c # cs) = sub \<or> string_includes cs sub)"

text \<open>\<open>lines.join(sep)\<close> of an array of strings.\<close>

fun join_lines :: "string \<Rightarrow> string list \<Rightarrow> string" where
  "join_lines sep [] = []"
| "join_lines sep [l] = l"
| "join_lines sep (l # ls) = l @ sep @ join_lines sep ls"

section \<open>Data model of the remote-queries manager\<close>

text \<open>
  The declarations of the manager's types (\<open>RemoteQueryResultIndex\<close>,
  \<open>RepositoriesMetadata\<close>, \<open>RemoteQueryResult\<close>, \<open>DownloadLink\<close>, \<open>RemoteQuery\<close>,
  \<open>QueryStatus\<close>) are not among the sources: each record holds the fields that the
  manager reads or writes, with the optionality its code tests for. Fields of the same
  name in two records are told apart by the record's name.
\<close>

text \<open>The result index of a remote query, as \<open>mapQueryResult\<close> reads it.\<close>

record remote_query_success_index_item =
  artifactId :: nat
  nwo :: string
  sha :: "string option"
  resultCount :: nat
  bqrsFileSize :: nat
  sarifFileSize :: "nat option"
  sourceLocationPrefix :: string

record remote_query_failure_index_item =
  nwo :: string
  error :: string

record remote_query_result_index =
  artifactsUrlPath :: string
  successes :: "remote_query_success_index_item list"
  failures :: "remote_query_failure_index_item list"

text \<open>\<open>RepositoriesMetadata\<close>: an object keyed by the repository's name with owner.\<close>

record repository_metadata =
  starCount :: nat
  lastUpdated :: nat

type_synonym repositories_metadata = "string \<rightharpoonup> repository_metadata"

text \<open>The field \<open>id\<close> of a download link is written \<open>id_link\<close>.\<close>

record download_link =
  id_link :: string
  urlPath :: string
  innerFilePath :: string
  queryId :: string

record analysis_summary =
  nwo :: string
  databaseSha :: string
  resultCount :: nat
  sourceLocationPrefix :: string
  fileSizeInBytes :: nat
  starCount :: "nat option"
  lastUpdated :: "nat option"
  downloadLink :: download_link

record analysis_failure =
  nwo :: string
  error :: string

record remote_query_result =
  executionEndTime :: nat
  analysisSummaries :: "analysis_summary list"
  analysisFailures :: "analysis_failure list"
  queryId :: string

text \<open>
  The object literal that \<open>autoDownloadRemoteQueryResults\<close> builds for every analysis it
  hands to the analyses-results manager.
\<close>

record analysis_to_download =
  nwo :: string
  databaseSha :: string
  resultCount :: nat
  sourceLocationPrefix :: string
  downloadLink :: download_link
  fileSize :: string

section \<open>The data transformations\<close>

definition autoDownloadMaxSize :: nat where
  "autoDownloadMaxSize = 300 * 1024"

definition autoDownloadMaxCount :: nat where
  "autoDownloadMaxCount = 100"

text \<open>The arrow function of \<open>resultIndex.successes.map\<close> in \<open>mapQueryResult\<close>.\<close>

definition mapSuccessItem ::
  "remote_query_result_index \<Rightarrow> string \<Rightarrow> repositories_metadata \<Rightarrow>
   remote_query_success_index_item \<Rightarrow> analysis_summary" where
  "mapSuccessItem resultIndex qid metadata item =
     \<lparr> analysis_summary.nwo = remote_query_success_index_item.nwo item,
       analysis_summary.databaseSha =
         (if truthy_string (sha item) then the (sha item) else ''HEAD''),
       analysis_summary.resultCount = remote_query_success_index_item.resultCount item,
       analysis_summary.sourceLocationPrefix =
         remote_query_success_index_item.sourceLocationPrefix item,
       fileSizeInBytes =
         (if truthy_number (sarifFileSize item) then the (sarifFileSize item)
          else bqrsFileSize item),
       analysis_summary.starCount =
         map_option repository_metadata.starCount
           (metadata (remote_query_success_index_item.nwo item)),
       analysis_summary.lastUpdated =
         map_option repository_metadata.lastUpdated
           (metadata (remote_query_success_index_item.nwo item)),
       analysis_summary.downloadLink =
         \<lparr> id_link = toString (artifactId item),
           urlPath = artifactsUrlPath resultIndex @ ''/'' @ toString (artifactId item),
           innerFilePath =
             (if truthy_number (sarifFileSize item) then ''results.sarif''
              else ''results.bqrs''),
           download_link.queryId = qid \<rparr> \<rparr>"

text \<open>The arrow function of \<open>resultIndex.failures.map\<close> in \<open>mapQueryResult\<close>.\<close>

definition mapFailureItem :: "remote_query_failure_index_item \<Rightarrow> analysis_failure" where
  "mapFailureItem item =
     \<lparr> analysis_failure.nwo = remote_query_failure_index_item.nwo item,
       analysis_failure.error = remote_query_failure_index_item.error item \<rparr>"

definition mapQueryResult ::
  "nat \<Rightarrow> remote_query_result_index \<Rightarrow> string \<Rightarrow> repositories_metadata \<Rightarrow>
   remote_query_result" where
  "mapQueryResult endTime resultIndex qid metadata =
     \<lparr> executionEndTime = endTime,
       analysisSummaries = map (mapSuccessItem resultIndex qid metadata) (successes resultIndex),
       analysisFailures = map mapFailureItem (failures resultIndex),
       remote_query_result.queryId = qid \<rparr>"

text \<open>The arrow function of \<open>.map\<close> in \<open>autoDownloadRemoteQueryResults\<close>.\<close>

definition toAnalysisToDownload :: "analysis_summary \<Rightarrow> analysis_to_download" where
  "toAnalysisToDownload a =
     \<lparr> analysis_to_download.nwo = analysis_summary.nwo a,
       analysis_to_download.databaseSha = analysis_summary.databaseSha a,
       analysis_to_download.resultCount = analysis_summary.resultCount a,
       analysis_to_download.sourceLocationPrefix = analysis_summary.sourceLocationPrefix a,
       analysis_to_download.downloadLink = analysis_summary.downloadLink a,
       fileSize = toString (fileSizeInBytes a) \<rparr>"

text \<open>
  \<open>analysesToDownload\<close> of \<open>autoDownloadRemoteQueryResults\<close>: \<open>filter\<close>, then
  \<open>slice(0, autoDownloadMaxCount)\<close>, then \<open>map\<close>.
\<close>

definition analysesToDownload :: "remote_query_result \<Rightarrow> analysis_to_download list" where
  "analysesToDownload queryResult =
     map toAnalysisToDownload
       (take autoDownloadMaxCount
          (filter (\<lambda>a. fileSizeInBytes a < autoDownloadMaxSize)
             (analysisSummaries queryResult)))"

section \<open>The world of the remote-queries manager\<close>

text \<open>
  \<open>QueryStatus\<close> and the status of a workflow run, which the monitor reports as one of
  four string literals.
\<close>

datatype query_status = QueryStatus_InProgress | QueryStatus_Completed | QueryStatus_Failed

datatype workflow_status =
  CompletedSuccessfully | CompletedUnsuccessfully | Cancelled | InProgress

record query_workflow_result =
  status :: workflow_status
  error :: "string option"

record updated_query_status_event =
  queryId :: string
  status :: query_status
  failureReason :: "string option"
  repositoryCount :: "nat option"
  resultCount :: "nat option"

text \<open>The fields of a \<open>RemoteQuery\<close> that the manager reads.\<close>

record repository =
  owner :: string
  name :: string

record remote_query =
  queryName :: string
  controllerRepository :: repository
  actionsWorkflowRunId :: nat

datatype exn = Error string | NoSuchFile string

text \<open>
  What the manager does to the outside, in the order it does it: the events it fires,
  the calls to the GitHub API client, the commands, the messages shown to the user and
  the hand-over to the analyses-results manager.
\<close>

datatype effect =
    MonitorQuery remote_query
  | GetRemoteQueryIndex remote_query
  | GetRepositoriesMetadata "string list"
  | FireStatusUpdate updated_query_status_event
  | ExecuteCommand string remote_query_result
  | ShowInformationMessageWithAction string string
  | ShowAndLogInformationMessage string
  | ShowAndLogErrorMessage string
  | ShowAndLogExceptionWithTelemetry string
  | LoadAnalysesResults "analysis_to_download list" string
  | WriteFile string string
  | ClipboardWriteText string

text \<open>
  The state outside the manager: the files on disk by path, the directories that
  exist, the clipboard, and the effects so far, writes to disk and to the clipboard
  among them. Calls to the clipboard and the services return; a network error is
  outside the model.
\<close>

record world =
  files :: "string \<rightharpoonup> string"
  dirs :: "string set"
  clipboard :: string
  trace :: "effect list"

definition emit :: "effect \<Rightarrow> world \<Rightarrow> world" where
  "emit e w = w\<lparr>trace := trace w @ [e]\<rparr>"

definition clipboard_writeText :: "string \<Rightarrow> world \<Rightarrow> world" where
  "clipboard_writeText text w = emit (ClipboardWriteText text) (w\<lparr>clipboard := text\<rparr>)"

text \<open>\<open>readFile\<close> is rejected on a path that holds no file.\<close>

definition readFile :: "string \<Rightarrow> world \<Rightarrow> exn + string" where
  "readFile filePath w =
     (case files w filePath of None \<Rightarrow> Inl (NoSuchFile filePath) | Some content \<Rightarrow> Inr content)"

text \<open>
  The library functions the manager calls and the constructor argument \<open>storagePath\<close>:
  \<open>path.join\<close>, \<open>os.EOL\<close>, and \<open>JSON.stringify(obj, null, 2)\<close> and \<open>JSON.parse\<close> at the
  type \<open>'a\<close> of the stored objects. \<open>dirname\<close> is the directory of a path, as the file
  system resolves it.
\<close>

record 'a platform =
  storagePath :: string
  join :: "string list \<Rightarrow> string"
  dirname :: "string \<Rightarrow> string"
  EOL :: string
  JSON_stringify :: "'a \<Rightarrow> string"
  JSON_parse :: "string \<Rightarrow> exn + 'a"

text \<open>
  What the services answer: the monitor's result for a query, \<open>Date.now()\<close> when the
  monitor returns, the result index of a query (\<open>None\<close> when no index artifact is
  available) and the metadata of a list of repositories.
\<close>

record services =
  monitorQuery :: "remote_query \<Rightarrow> query_workflow_result"
  now :: nat
  getRemoteQueryIndex :: "remote_query \<Rightarrow> remote_query_result_index option"
  getRepositoriesMetadata :: "string list \<Rightarrow> repositories_metadata"

text \<open>
  \<open>writeFile\<close> of \<open>fs-extra\<close> creates or replaces the file at a path, and is rejected
  with \<open>ENOENT\<close> (here \<open>NoSuchFile\<close>) when the directory of the path does not exist: it
  creates no directory, and neither does the manager. A rejected write leaves the
  world as it was.
\<close>

definition writeFile :: "'a platform \<Rightarrow> string \<Rightarrow> string \<Rightarrow> world \<Rightarrow> exn + world" where
  "writeFile pf filePath content w =
     (if dirname pf filePath \<in> dirs w
      then Inr (emit (WriteFile filePath content)
                  (w\<lparr>files := (files w)(filePath \<mapsto> content)\<rparr>))
      else Inl (NoSuchFile filePath))"

section \<open>The operations of the remote-queries manager\<close>

text \<open>
  An asynchronous method that changes the world returns the world it leaves and
  \<open>None\<close> when its promise resolves, \<open>Some e\<close> when it rejects with \<open>e\<close>;
  \<open>storeJsonFile\<close>, which only writes, returns the error or the world.
\<close>

definition storeJsonFile ::
  "'a platform \<Rightarrow> string \<Rightarrow> string \<Rightarrow> 'a \<Rightarrow> world \<Rightarrow> exn + world" where
  "storeJsonFile pf qid fileName obj w =
     (let filePath = join pf [storagePath pf, qid, fileName]
      in writeFile pf filePath (JSON_stringify pf obj) w)"

definition retrieveJsonFile :: "'a platform \<Rightarrow> string \<Rightarrow> string \<Rightarrow> world \<Rightarrow> exn + 'a" where
  "retrieveJsonFile pf qid fileName w =
     (let filePath = join pf [storagePath pf, qid, fileName]
      in case readFile filePath w of
           Inl e \<Rightarrow> Inl e
         | Inr content \<Rightarrow> JSON_parse pf content)"

definition getRemoteQueryResult ::
  "remote_query_result platform \<Rightarrow> string \<Rightarrow> world \<Rightarrow> exn + remote_query_result" where
  "getRemoteQueryResult pf qid w = retrieveJsonFile pf qid ''query-result.json'' w"

text \<open>
  Modelled from the spec: \<open>sumAnalysisSummariesResults\<close> of \<open>remote-query-result.ts\<close>,
  which is not among the sources: the sum of the per-analysis result counts.
\<close>

definition sumAnalysisSummariesResults :: "analysis_summary list \<Rightarrow> nat" where
  "sumAnalysisSummariesResults summaries = sum_list (map analysis_summary.resultCount summaries)"

definition autoDownloadRemoteQueryResults :: "remote_query_result \<Rightarrow> world \<Rightarrow> world" where
  "autoDownloadRemoteQueryResults queryResult w =
     emit (LoadAnalysesResults (analysesToDownload queryResult)
             (remote_query_result.queryId queryResult)) w"

text \<open>
  \<open>askToOpenResults\<close> up to its first \<open>await\<close>: the question put to the user. The answer
  arrives in the background, after the caller has gone on.
\<close>

definition askToOpenResults :: "remote_query \<Rightarrow> remote_query_result \<Rightarrow> world \<Rightarrow> world" where
  \<open>askToOpenResults query queryResult w =
     (let totalResultCount = sumAnalysisSummariesResults (analysisSummaries queryResult);
          totalRepoCount = length (analysisSummaries queryResult);
          message = ''Query "'' @ queryName query @ ''" run on '' @ toString totalRepoCount @
            '' repositories and returned '' @ toString totalResultCount @ '' results''
      in emit (ShowInformationMessageWithAction message ''View'') w)\<close>

definition downloadAvailableResults ::
  "remote_query_result platform \<Rightarrow> services \<Rightarrow> string \<Rightarrow> remote_query \<Rightarrow> nat \<Rightarrow>
   world \<Rightarrow> exn option \<times> world" where
  "downloadAvailableResults pf sv qid remoteQuery endTime w0 =
     (let w1 = emit (GetRemoteQueryIndex remoteQuery) w0
      in case getRemoteQueryIndex sv remoteQuery of
           Some resultIndex \<Rightarrow>
             (let nwos = map remote_query_success_index_item.nwo (successes resultIndex);
                  w2 = emit (GetRepositoriesMetadata nwos) w1;
                  metadata = getRepositoriesMetadata sv nwos;
                  queryResult = mapQueryResult endTime resultIndex qid metadata;
                  resultCount = sumAnalysisSummariesResults (analysisSummaries queryResult);
                  w3 = emit (FireStatusUpdate
                         \<lparr> updated_query_status_event.queryId = qid,
                           updated_query_status_event.status = QueryStatus_Completed,
                           failureReason = None,
                           repositoryCount = Some (length (analysisSummaries queryResult)),
                           updated_query_status_event.resultCount = Some resultCount \<rparr>) w2
              in case storeJsonFile pf qid ''query-result.json'' queryResult w3 of
                   Inl e \<Rightarrow> (Some e, w3)
                 | Inr w4 \<Rightarrow>
                     (let w5 = emit (ExecuteCommand ''codeQL.autoDownloadRemoteQueryResults''
                                 queryResult) w4
                      in (None, askToOpenResults remoteQuery queryResult w5)))
         | None \<Rightarrow>
             (let controllerRepo = owner (controllerRepository remoteQuery) @ ''/'' @
                    name (controllerRepository remoteQuery);
                  workflowRunUrl = ''https://github.com/'' @ controllerRepo @
                    ''/actions/runs/'' @ toString (actionsWorkflowRunId remoteQuery);
                  w2 = emit (ShowAndLogExceptionWithTelemetry
                         (''There was an issue retrieving the result for the query ['' @
                          queryName remoteQuery @ '']('' @ workflowRunUrl @ '').'')) w1
              in (None, emit (FireStatusUpdate
                         \<lparr> updated_query_status_event.queryId = qid,
                           updated_query_status_event.status = QueryStatus_Failed,
                           failureReason = None,
                           repositoryCount = None,
                           updated_query_status_event.resultCount = None \<rparr>) w2)))"

text \<open>\<open>error?.includes("cancelled")\<close>: \<open>undefined\<close>, so falsy, when there is no error.\<close>

definition error_includes_cancelled :: "string option \<Rightarrow> bool" where
  "error_includes_cancelled e =
     (case e of None \<Rightarrow> False | Some msg \<Rightarrow> string_includes msg ''cancelled'')"

text \<open>An optional string in a template literal: \<open>undefined\<close> is rendered by its name.\<close>

definition interpolate :: "string option \<Rightarrow> string" where
  "interpolate e = (case e of None \<Rightarrow> ''undefined'' | Some msg \<Rightarrow> msg)"

text \<open>
  The event \<open>{ queryId, status: QueryStatus.Failed, failureReason }\<close> that
  \<open>monitorRemoteQuery\<close> fires in three places.
\<close>

definition failedEvent :: "string \<Rightarrow> string option \<Rightarrow> updated_query_status_event" where
  "failedEvent qid reason =
     \<lparr> updated_query_status_event.queryId = qid,
       updated_query_status_event.status = QueryStatus_Failed,
       failureReason = reason,
       repositoryCount = None,
       updated_query_status_event.resultCount = None \<rparr>"

text \<open>
  \<open>await this.downloadAvailableResults(...)\<close> followed by the message that the variant
  analysis was cancelled: a rejected download rejects the caller, and the message is
  not shown.
\<close>

definition downloadThenInform ::
  "exn option \<times> world \<Rightarrow> string \<Rightarrow> exn option \<times> world" where
  "downloadThenInform downloaded message =
     (case downloaded of
        (Some e, w) \<Rightarrow> (Some e, w)
      | (None, w) \<Rightarrow> (None, emit (ShowAndLogInformationMessage message) w))"

definition monitorRemoteQuery ::
  "remote_query_result platform \<Rightarrow> services \<Rightarrow> string \<Rightarrow> remote_query \<Rightarrow> world \<Rightarrow>
   exn option \<times> world" where
  "monitorRemoteQuery pf sv qid remoteQuery w0 =
     (let w1 = emit (MonitorQuery remoteQuery) w0;
          queryWorkflowResult = monitorQuery sv remoteQuery;
          endTime = now sv
      in case query_workflow_result.status queryWorkflowResult of
           CompletedSuccessfully \<Rightarrow>
             downloadAvailableResults pf sv qid remoteQuery endTime w1
         | CompletedUnsuccessfully \<Rightarrow>
             (if error_includes_cancelled (query_workflow_result.error queryWorkflowResult)
              then
                (let w2 = emit (FireStatusUpdate (failedEvent qid (Some ''Cancelled''))) w1
                 in downloadThenInform
                      (downloadAvailableResults pf sv qid remoteQuery endTime w2)
                      ''Variant analysis was cancelled'')
              else
                (let w2 = emit (FireStatusUpdate
                            (failedEvent qid (query_workflow_result.error queryWorkflowResult))) w1
                 in (None, emit (ShowAndLogErrorMessage
                            (''Variant analysis execution failed. Error: '' @
                             interpolate (query_workflow_result.error queryWorkflowResult))) w2)))
         | Cancelled \<Rightarrow>
             (let w2 = emit (FireStatusUpdate (failedEvent qid (Some ''Cancelled''))) w1
              in downloadThenInform
                   (downloadAvailableResults pf sv qid remoteQuery endTime w2)
                   ''Variant analysis was cancelled'')
         | InProgress \<Rightarrow>
             (None, emit (ShowAndLogExceptionWithTelemetry ''Unexpected status: InProgress'') w1))"

text \<open>The lines that \<open>copyRemoteQueryRepoListToClipboard\<close> joins, for a non-empty \<open>repos\<close>.\<close>

definition repoListText :: "string list \<Rightarrow> string list" where
  \<open>repoListText repos =
     [''"new-repo-list": [''] @
     map (\<lambda>repo. ''    "'' @ repo @ ''",'') (take (length repos - 1) repos) @
     [''    "'' @ repos ! (length repos - 1) @ ''"'', '']'']\<close>

definition copyRemoteQueryRepoListToClipboard ::
  "remote_query_result platform \<Rightarrow> string \<Rightarrow> world \<Rightarrow> exn + world" where
  "copyRemoteQueryRepoListToClipboard pf qid w =
     (case getRemoteQueryResult pf qid w of
        Inl e \<Rightarrow> Inl e
      | Inr queryResult \<Rightarrow>
          (let repos = map analysis_summary.nwo
                 (filter (\<lambda>a. analysis_summary.resultCount a > 0) (analysisSummaries queryResult))
           in if length repos > 0
              then Inr (clipboard_writeText (join_lines (EOL pf) (repoListText repos)) w)
              else Inr w))"

section \<open>The compare view\<close>

text \<open>
  A \<open>BqrsInfo\<close> lists the schemas of a query's result sets; the view reads the name of
  a schema only. Of a \<open>CompletedLocalQueryInfo\<close> it reads the path of the results file,
  the status string, the start time and the URI of the database.
\<close>

record bqrs_result_set_schema =
  name :: string

record bqrs_info =
  result_sets :: "bqrs_result_set_schema list"

record completed_local_query_info =
  resultsPath :: string
  statusString :: string
  startTime :: string
  databaseUri :: string

text \<open>\<open>ComparePair\<close>; its fields \<open>from\<close> and \<open>to\<close> are written \<open>from_info\<close> and \<open>to_info\<close>.\<close>

record compare_pair =
  from_info :: completed_local_query_info
  fromSchemas :: bqrs_info
  to_info :: completed_local_query_info
  toSchemas :: bqrs_info
  commonResultSetNames :: "string list"

text \<open>What \<open>findResultSetNames\<close> returns.\<close>

record result_set_names =
  currentResultSetDisplayName :: "string option"
  fromResultSetName :: string
  toResultSetName :: string

record comparison_query_stats =
  name :: string
  status :: string
  time :: string

text \<open>
  The messages to the front-end: \<open>setComparisonQueryInfo\<close> with the stats of the two
  queries, the database URI and the common result-set names, and \<open>setComparisons\<close> with
  the result, the current result-set name and the message.
\<close>

datatype 'r to_compare_view_message =
    SetComparisonQueryInfo comparison_query_stats comparison_query_stats string "string list"
  | SetComparisons "'r option" string "string option"

datatype open_query_kind = From | To

datatype from_compare_view_message =
    ViewLoaded
  | ChangeCompare string
  | ViewSourceFile string string
  | OpenQuery open_query_kind
  | Telemetry string
  | UnhandledError string

text \<open>What the view does to the panel, the front-end and the rest of the extension.\<close>

datatype 'r view_effect =
    GetPanel
  | Reveal
  | WaitForPanelLoaded
  | PostMessage "'r to_compare_view_message"
  | OnWebViewLoaded
  | SendUIInteraction string
  | JumpToLocation string string
  | ShowQueryResults completed_local_query_info
  | ShowAndLogException string

record 'r compare_view =
  comparePair :: "compare_pair option"
  effects :: "'r view_effect list"

definition act :: "'r view_effect \<Rightarrow> 'r compare_view \<Rightarrow> 'r compare_view" where
  "act e v = v\<lparr>effects := effects v @ [e]\<rparr>"

text \<open>
  The functions the view imports or is constructed with, none of them among the sources:
  the CLI server's \<open>bqrsInfo\<close> and \<open>bqrsDecode\<close>, \<open>bqrsToResultSet\<close>,
  \<open>findCommonResultSetNames\<close> and \<open>findResultSetNames\<close> of \<open>result-set-names\<close>,
  \<open>resultsDiff\<close>, \<open>getErrorMessage\<close>, the label provider's \<open>getShortLabel\<close>, and whether
  a telemetry listener is installed. \<open>'rs\<close> is a raw result set, \<open>'ch\<close> a decoded
  chunk, \<open>'r\<close> a comparison result.
\<close>

record ('rs, 'ch, 'r) compare_deps =
  bqrsInfo :: "string \<Rightarrow> bqrs_info"
  bqrsDecode :: "string \<Rightarrow> string \<Rightarrow> 'ch"
  bqrsToResultSet :: "bqrs_result_set_schema \<Rightarrow> 'ch \<Rightarrow> 'rs"
  findCommonResultSetNames :: "bqrs_info \<Rightarrow> bqrs_info \<Rightarrow> string list"
  findResultSetNames ::
    "bqrs_info \<Rightarrow> bqrs_info \<Rightarrow> string list \<Rightarrow> string option \<Rightarrow> exn + result_set_names"
  resultsDiff :: "'rs \<Rightarrow> 'rs \<Rightarrow> exn + 'r"
  getErrorMessage :: "exn \<Rightarrow> string"
  getShortLabel :: "completed_local_query_info \<Rightarrow> string"
  telemetryListener :: bool

definition getResultSet ::
  "('rs, 'ch, 'r) compare_deps \<Rightarrow> bqrs_info \<Rightarrow> string \<Rightarrow> string \<Rightarrow> exn + 'rs" where
  "getResultSet deps info resultSetName path =
     (case find (\<lambda>schema. bqrs_result_set_schema.name schema = resultSetName)
             (result_sets info) of
        None \<Rightarrow> Inl (Error (''Schema '' @ resultSetName @ '' not found.''))
      | Some schema \<Rightarrow> Inr (bqrsToResultSet deps schema (bqrsDecode deps path resultSetName)))"

definition findResultSetsToCompare ::
  "('rs, 'ch, 'r) compare_deps \<Rightarrow> compare_pair \<Rightarrow> string option \<Rightarrow>
   exn + (string option \<times> 'rs \<times> 'rs)" where
  "findResultSetsToCompare deps pair selectedResultSetName =
     (case findResultSetNames deps (fromSchemas pair) (toSchemas pair)
             (commonResultSetNames pair) selectedResultSetName of
        Inl e \<Rightarrow> Inl e
      | Inr names \<Rightarrow>
          (case getResultSet deps (fromSchemas pair) (fromResultSetName names)
                  (resultsPath (from_info pair)) of
             Inl e \<Rightarrow> Inl e
           | Inr fromResultSet \<Rightarrow>
               (case getResultSet deps (toSchemas pair) (toResultSetName names)
                       (resultsPath (to_info pair)) of
                  Inl e \<Rightarrow> Inl e
                | Inr toResultSet \<Rightarrow>
                    Inr (currentResultSetDisplayName names, fromResultSet, toResultSet))))"

definition compareResults :: "('rs, 'ch, 'r) compare_deps \<Rightarrow> 'rs \<Rightarrow> 'rs \<Rightarrow> exn + 'r" where
  "compareResults deps fromResults toResults = resultsDiff deps fromResults toResults"

text \<open>
  An asynchronous method returns the view it leaves and \<open>None\<close> when its promise
  resolves, \<open>Some e\<close> when it rejects with \<open>e\<close>.
\<close>

text \<open>
  \<open>showResultsInternal\<close>: nothing without a compare pair; else the panel is fetched
  and revealed, the result sets are looked up, and when a display name is found the
  outcome of \<open>compareResults\<close>, its result or the message of what it threw, is posted.
\<close>

definition showResultsInternal ::
  "('rs, 'ch, 'r) compare_deps \<Rightarrow> string option \<Rightarrow> 'r compare_view \<Rightarrow>
   exn option \<times> 'r compare_view" where
  "showResultsInternal deps selectedResultSetName v =
     (case comparePair v of
        None \<Rightarrow> (None, v)
      | Some pair \<Rightarrow>
          (let v1 = act WaitForPanelLoaded (act Reveal (act GetPanel v))
           in case findResultSetsToCompare deps pair selectedResultSetName of
                Inl e \<Rightarrow> (Some e, v1)
              | Inr (displayName, fromResultSet, toResultSet) \<Rightarrow>
                  (if truthy_string displayName
                   then
                     (let (result, message) =
                            (case compareResults deps fromResultSet toResultSet of
                               Inr r \<Rightarrow> (Some r, None)
                             | Inl e \<Rightarrow> (None, Some (getErrorMessage deps e)))
                      in (None, act (PostMessage
                                  (SetComparisons result (the displayName) message)) v1))
                   else (None, v1))))"

definition showResults ::
  "('rs, 'ch, 'r) compare_deps \<Rightarrow> completed_local_query_info \<Rightarrow>
   completed_local_query_info \<Rightarrow> string option \<Rightarrow> 'r compare_view \<Rightarrow>
   exn option \<times> 'r compare_view" where
  "showResults deps from_q to_q selectedResultSetName v =
     (let fromS = bqrsInfo deps (resultsPath from_q);
          toS = bqrsInfo deps (resultsPath to_q);
          common = findCommonResultSetNames deps fromS toS;
          v1 = v\<lparr>comparePair := Some
                 \<lparr> from_info = from_q, fromSchemas = fromS, to_info = to_q, toSchemas = toS,
                   commonResultSetNames = common \<rparr>\<rparr>;
          v2 = act WaitForPanelLoaded (act Reveal (act GetPanel v1));
          v3 = act (PostMessage
                 (SetComparisonQueryInfo
                    \<lparr> comparison_query_stats.name = getShortLabel deps from_q,
                      comparison_query_stats.status = statusString from_q,
                      time = startTime from_q \<rparr>
                    \<lparr> comparison_query_stats.name = getShortLabel deps to_q,
                      comparison_query_stats.status = statusString to_q,
                      time = startTime to_q \<rparr>
                    (databaseUri to_q) common)) v2
      in showResultsInternal deps selectedResultSetName v3)"

definition onPanelDispose :: "'r compare_view \<Rightarrow> 'r compare_view" where
  "onPanelDispose v = v\<lparr>comparePair := None\<rparr>"

definition changeTable ::
  "('rs, 'ch, 'r) compare_deps \<Rightarrow> string \<Rightarrow> 'r compare_view \<Rightarrow> exn option \<times> 'r compare_view" where
  "changeTable deps newResultSetName v = showResultsInternal deps (Some newResultSetName) v"

text \<open>\<open>telemetryListener?.sendUIInteraction(action)\<close>: nothing without a listener.\<close>

definition sendUIInteraction ::
  "('rs, 'ch, 'r) compare_deps \<Rightarrow> string \<Rightarrow> 'r compare_view \<Rightarrow> 'r compare_view" where
  "sendUIInteraction deps action v =
     (if telemetryListener deps then act (SendUIInteraction action) v else v)"

definition openQuery :: "open_query_kind \<Rightarrow> 'r compare_view \<Rightarrow> 'r compare_view" where
  "openQuery kind v =
     (case comparePair v of
        None \<Rightarrow> v
      | Some pair \<Rightarrow>
          act (ShowQueryResults (case kind of From \<Rightarrow> from_info pair | To \<Rightarrow> to_info pair)) v)"

definition kind_string :: "open_query_kind \<Rightarrow> string" where
  "kind_string kind = (case kind of From \<Rightarrow> ''from'' | To \<Rightarrow> ''to'')"

definition onMessage ::
  "('rs, 'ch, 'r) compare_deps \<Rightarrow> from_compare_view_message \<Rightarrow> 'r compare_view \<Rightarrow>
   exn option \<times> 'r compare_view" where
  "onMessage deps msg v =
     (case msg of
        ViewLoaded \<Rightarrow> (None, act OnWebViewLoaded v)
      | ChangeCompare newResultSetName \<Rightarrow>
          (case changeTable deps newResultSetName v of
             (Some e, v1) \<Rightarrow> (Some e, v1)
           | (None, v1) \<Rightarrow>
               (None, sendUIInteraction deps ''compare-view-change-table-to-compare'' v1))
      | ViewSourceFile uri loc \<Rightarrow> (None, act (JumpToLocation uri loc) v)
      | OpenQuery kind \<Rightarrow>
          (None, sendUIInteraction deps
                   (''compare-view-open-'' @ kind_string kind @ ''-query'') (openQuery kind v))
      | Telemetry action \<Rightarrow> (None, sendUIInteraction deps action v)
      | UnhandledError message \<Rightarrow>
          (None, act (ShowAndLogException
                   (''Unhandled error in result comparison view: '' @ message)) v))"

section \<open>Observations\<close>

text \<open>The status-change events fired so far, in order.\<close>

fun firedStatusUpdates :: "effect list \<Rightarrow> updated_query_status_event list" where
  "firedStatusUpdates [] = []"
| "firedStatusUpdates (FireStatusUpdate e # es) = e # firedStatusUpdates es"
| "firedStatusUpdates (_ # es) = firedStatusUpdates es"

text \<open>The queries whose result index has been asked for: the download attempts.\<close>

fun downloadAttempts :: "effect list \<Rightarrow> remote_query list" where
  "downloadAttempts [] = []"
| "downloadAttempts (GetRemoteQueryIndex q # es) = q # downloadAttempts es"
| "downloadAttempts (_ # es) = downloadAttempts es"

text \<open>The writes to disk, as pairs of path and content.\<close>

fun fileWrites :: "effect list \<Rightarrow> (string \<times> string) list" where
  "fileWrites [] = []"
| "fileWrites (WriteFile p c # es) = (p, c) # fileWrites es"
| "fileWrites (_ # es) = fileWrites es"

text \<open>The texts written to the clipboard.\<close>

fun clipboardWrites :: "effect list \<Rightarrow> string list" where
  "clipboardWrites [] = []"
| "clipboardWrites (ClipboardWriteText t # es) = t # clipboardWrites es"
| "clipboardWrites (_ # es) = clipboardWrites es"

text \<open>The lists handed to the analyses-results manager for download.\<close>

fun loadedAnalyses :: "effect list \<Rightarrow> (analysis_to_download list \<times> string) list" where
  "loadedAnalyses [] = []"
| "loadedAnalyses (LoadAnalysesResults ds q # es) = (ds, q) # loadedAnalyses es"
| "loadedAnalyses (_ # es) = loadedAnalyses es"

text \<open>The messages posted to the front-end of the compare view.\<close>

fun postedMessages :: "'r view_effect list \<Rightarrow> 'r to_compare_view_message list" where
  "postedMessages [] = []"
| "postedMessages (PostMessage m # es) = m # postedMessages es"
| "postedMessages (_ # es) = postedMessages es"

text \<open>
  The event that \<open>downloadAvailableResults\<close> fires for a result index, and the
  query result that it maps the index to, with the metadata that the API client
  answers for the repositories of the index.
\<close>

definition completedEvent :: "string \<Rightarrow> remote_query_result_index \<Rightarrow> updated_query_status_event" where
  "completedEvent qid resultIndex =
     \<lparr> updated_query_status_event.queryId = qid,
       updated_query_status_event.status = QueryStatus_Completed,
       failureReason = None,
       repositoryCount = Some (length (successes resultIndex)),
       updated_query_status_event.resultCount =
         Some (sum_list (map remote_query_success_index_item.resultCount
           (successes resultIndex))) \<rparr>"

definition mappedResult ::
  "services \<Rightarrow> nat \<Rightarrow> remote_query_result_index \<Rightarrow> string \<Rightarrow> remote_query_result" where
  "mappedResult sv endTime resultIndex qid =
     mapQueryResult endTime resultIndex qid
       (getRepositoriesMetadata sv
          (map remote_query_success_index_item.nwo (successes resultIndex)))"

section \<open>Example values\<close>

text \<open>
  Concrete values on which the theorems below are run: a result index and a query
  result, the services' answers, two platforms and three worlds. \<open>example_platform\<close>
  reads every stored file as one fixed query result; \<open>number_platform\<close> stores numbers,
  whose JSON text is their decimal string; both join paths with a slash, and the
  directory of a path is what precedes its last slash. \<open>empty_world\<close> is a disk without
  directories, \<open>prepared_world\<close> has the directory of query \<open>q1\<close> under the storage
  path, and \<open>stored_world\<close> holds a stored result there as well.
\<close>

definition example_link :: download_link where
  "example_link = \<lparr> id_link = ''7'', urlPath = ''/artifacts/7'', innerFilePath = ''results.sarif'',
     download_link.queryId = ''q1'' \<rparr>"

definition example_summary :: "string \<Rightarrow> nat \<Rightarrow> nat \<Rightarrow> analysis_summary" where
  "example_summary repo bytes results =
     \<lparr> analysis_summary.nwo = repo, analysis_summary.databaseSha = ''HEAD'',
       analysis_summary.resultCount = results, analysis_summary.sourceLocationPrefix = ''/src'',
       fileSizeInBytes = bytes, analysis_summary.starCount = None,
       analysis_summary.lastUpdated = None, analysis_summary.downloadLink = example_link \<rparr>"

definition example_result :: "analysis_summary list \<Rightarrow> remote_query_result" where
  "example_result summaries =
     \<lparr> executionEndTime = 1000, analysisSummaries = summaries, analysisFailures = [],
       remote_query_result.queryId = ''q1'' \<rparr>"

definition example_item :: "string option \<Rightarrow> nat option \<Rightarrow> remote_query_success_index_item" where
  "example_item s sarif =
     \<lparr> artifactId = 42, remote_query_success_index_item.nwo = ''a/b'', sha = s,
       remote_query_success_index_item.resultCount = 5, bqrsFileSize = 2048,
       sarifFileSize = sarif,
       remote_query_success_index_item.sourceLocationPrefix = ''/src'' \<rparr>"

definition example_index :: "remote_query_success_index_item list \<Rightarrow> remote_query_result_index" where
  "example_index items = \<lparr> artifactsUrlPath = ''/repos/o/r/artifacts'', successes = items,
     failures = [] \<rparr>"

definition example_query :: remote_query where
  "example_query = \<lparr> queryName = ''find-bugs'',
     controllerRepository = \<lparr> owner = ''o'', repository.name = ''controller'' \<rparr>,
     actionsWorkflowRunId = 17 \<rparr>"

definition example_workflow_result :: "workflow_status \<Rightarrow> string option \<Rightarrow> query_workflow_result" where
  "example_workflow_result s e =
     \<lparr> query_workflow_result.status = s, query_workflow_result.error = e \<rparr>"

definition example_services ::
  "query_workflow_result \<Rightarrow> remote_query_result_index option \<Rightarrow> services" where
  "example_services r idx =
     \<lparr> monitorQuery = (\<lambda>q. r), now = 1000, getRemoteQueryIndex = (\<lambda>q. idx),
       getRepositoriesMetadata = (\<lambda>nwos. Map.empty) \<rparr>"

definition parent_directory :: "string \<Rightarrow> string" where
  "parent_directory path = rev (drop 1 (dropWhile (\<lambda>c. c \<noteq> CHR ''/'') (rev path)))"

definition example_platform :: "remote_query_result \<Rightarrow> remote_query_result platform" where
  "example_platform stored =
     \<lparr> storagePath = ''/storage'',
       join = join_lines ''/'',
       dirname = parent_directory,
       EOL = [CHR 0x0A],
       JSON_stringify = (\<lambda>obj. ''{}''),
       JSON_parse = (\<lambda>s. if s = ''{}'' then Inr stored else Inl (Error ''Unexpected token'')) \<rparr>"

definition number_platform :: "nat platform" where
  "number_platform =
     \<lparr> storagePath = ''/storage'',
       join = join_lines ''/'',
       dirname = parent_directory,
       EOL = [CHR 0x0A],
       JSON_stringify = toString,
       JSON_parse = (\<lambda>s. if s \<noteq> [] \<and> list_all is_digit s then Inr (decimal_value s)
                          else Inl (Error ''Unexpected token'')) \<rparr>"

definition empty_world :: world where
  "empty_world = \<lparr> files = Map.empty, dirs = {}, clipboard = [], trace = [] \<rparr>"

definition prepared_world :: world where
  "prepared_world =
     \<lparr> files = Map.empty, dirs = {''/storage'', ''/storage/q1''}, clipboard = [], trace = [] \<rparr>"

definition stored_world :: world where
  "stored_world =
     \<lparr> files = [''/storage/q1/query-result.json'' \<mapsto> ''{}''],
       dirs = {''/storage'', ''/storage/q1''}, clipboard = ''old'', trace = [] \<rparr>"

text \<open>
  For the compare view: two queries whose results hold the result sets \<open>#select\<close>
  and \<open>edges\<close>, and stand-ins for the imported functions. \<open>example_deps\<close> always picks
  \<open>#select\<close> on both sides and answers the diff it is given; \<open>mismatched_deps\<close> picks
  \<open>#select\<close> on one side and \<open>edges\<close> on the other.
\<close>

definition example_info :: "string \<Rightarrow> completed_local_query_info" where
  "example_info path =
     \<lparr> resultsPath = path, statusString = ''finished in 2 seconds'',
       startTime = ''2024-01-01 10:00'', databaseUri = ''file:///db'' \<rparr>"

definition example_bqrs :: "string list \<Rightarrow> bqrs_info" where
  "example_bqrs names = \<lparr> result_sets = map (\<lambda>n. \<lparr> bqrs_result_set_schema.name = n \<rparr>) names \<rparr>"

definition example_pair :: compare_pair where
  "example_pair =
     \<lparr> from_info = example_info ''/a.bqrs'', fromSchemas = example_bqrs [''#select'', ''edges''],
       to_info = example_info ''/b.bqrs'', toSchemas = example_bqrs [''#select'', ''edges''],
       commonResultSetNames = [''#select'', ''edges''] \<rparr>"

definition example_view :: "compare_pair option \<Rightarrow> string compare_view" where
  "example_view pair = \<lparr> comparePair = pair, effects = [] \<rparr>"

definition example_deps :: "(exn + string) \<Rightarrow> (nat list, nat list, string) compare_deps" where
  "example_deps diff =
     \<lparr> bqrsInfo = (\<lambda>path. example_bqrs [''#select'', ''edges'']),
       bqrsDecode = (\<lambda>path resultSetName. [1, 2, 3]),
       bqrsToResultSet = (\<lambda>schema chunk. chunk),
       findCommonResultSetNames = (\<lambda>fromS toS. [''#select'', ''edges'']),
       findResultSetNames = (\<lambda>fromS toS common selected.
          Inr \<lparr> currentResultSetDisplayName = Some ''#select'',
                fromResultSetName = ''#select'', toResultSetName = ''#select'' \<rparr>),
       resultsDiff = (\<lambda>fromResults toResults. diff),
       getErrorMessage = (\<lambda>e. case e of Error m \<Rightarrow> m | NoSuchFile path \<Rightarrow> path),
       getShortLabel = resultsPath,
       telemetryListener = True \<rparr>"

definition mismatched_deps :: "(nat list, nat list, string) compare_deps" where
  "mismatched_deps = (example_deps (Inr ''diff''))
     \<lparr> bqrsDecode := (\<lambda>path resultSetName. if resultSetName = ''edges'' then [7] else [1, 2, 3]),
       findResultSetNames := (\<lambda>fromS toS common selected.
          Inr \<lparr> currentResultSetDisplayName = Some ''#select <-> edges'',
                fromResultSetName = ''#select'', toResultSetName = ''edges'' \<rparr>) \<rparr>"

section \<open>Decimal rendering\<close>

text \<open>
  \<open>toString\<close> unfolds by its two cases; its result is a non-empty string of digits
  whose value is the number.
\<close>

lemma toString_small: "n < 10 \<Longrightarrow> toString n = [digit_char n]"
  by (simp add: toString.simps)

lemma toString_big:
  "\<not> n < 10 \<Longrightarrow> toString n = toString (n div 10) @ [digit_char (n mod 10)]"
  by (subst toString.simps) simp

lemmas toString_eval = toString_small toString_big digit_char_def

lemma below_ten: "(d::nat) < 10 \<Longrightarrow> d \<in> {0, 1, 2, 3, 4, 5, 6, 7, 8, 9}"
  by auto

lemma is_digit_digit_char: "d < 10 \<Longrightarrow> is_digit (digit_char d)"
  using below_ten[of d] unfolding is_digit_def digit_char_def by auto

lemma digit_value_digit_char: "d < 10 \<Longrightarrow> digit_value (digit_char d) = d"
  using below_ten[of d] unfolding digit_value_def digit_char_def by auto

lemma decimal_value_snoc: "decimal_value (s @ [c]) = 10 * decimal_value s + digit_value c"
  by (simp add: decimal_value_def)

lemma decimal_value_toString: "decimal_value (toString n) = n"
proof (induction n rule: toString.induct)
  case (1 n)
  show ?case
  proof (cases "n < 10")
    case True
    then show ?thesis by (simp add: toString_small decimal_value_def digit_value_digit_char)
  next
    case False
    then show ?thesis using 1 by (simp add: toString_big decimal_value_snoc digit_value_digit_char)
  qed
qed

lemma toString_digits: "list_all is_digit (toString n)"
proof (induction n rule: toString.induct)
  case (1 n)
  show ?case
  proof (cases "n < 10")
    case True
    then show ?thesis by (simp add: toString_small is_digit_digit_char)
  next
    case False
    then show ?thesis using 1 by (simp add: toString_big is_digit_digit_char)
  qed
qed

lemma toString_nonempty: "toString n \<noteq> []"
  by (subst toString.simps) simp

lemma number_platform_roundtrip:
  "JSON_parse number_platform (JSON_stringify number_platform n) = Inr n"
  by (simp add: number_platform_def toString_nonempty toString_digits decimal_value_toString)

section \<open>Strings and lists\<close>

text \<open>
  \<open>string_includes\<close> holds exactly when the string splits around the substring.
\<close>

lemma string_includes_iff: "string_includes s sub \<longleftrightarrow> (\<exists>p q. s = p @ sub @ q)"
proof (induction s)
  case Nil
  then show ?case by simp
next
  case (Cons c cs)
  show ?case
  proof
    assume "string_includes (c # cs) sub"
    then consider "take (length sub) (c # cs) = sub" | "string_includes cs sub" by auto
    then show "\<exists>p q. c # cs = p @ sub @ q"
    proof cases
      case 1
      then have "c # cs = [] @ sub @ drop (length sub) (c # cs)"
        by (metis append_Nil append_take_drop_id)
      then show ?thesis by blast
    next
      case 2
      then obtain p q where "cs = p @ sub @ q" using Cons.IH by auto
      then have "c # cs = (c # p) @ sub @ q" by simp
      then show ?thesis by blast
    qed
  next
    assume "\<exists>p q. c # cs = p @ sub @ q"
    then obtain p q where pq: "c # cs = p @ sub @ q" by auto
    show "string_includes (c # cs) sub"
    proof (cases p)
      case Nil
      then have "take (length sub) (c # cs) = sub" using pq by simp
      then show ?thesis by simp
    next
      case (Cons a p')
      then have "cs = p' @ sub @ q" using pq by simp
      then have "string_includes cs sub" using Cons.IH by blast
      then show ?thesis by simp
    qed
  qed
qed

lemma take_as_map_nth: "k \<le> length xs \<Longrightarrow> map f (take k xs) = map (\<lambda>i. f (xs ! i)) [0..<k]"
  by (rule nth_equalityI) simp_all

lemma repoListText_entries:
  assumes "repos \<noteq> []"
  shows \<open>repoListText repos =
     ''"new-repo-list": ['' #
     map (\<lambda>i. ''    "'' @ repos ! i @ (if Suc i < length repos then ''",'' else ''"''))
       [0..<length repos] @
     ['']'']\<close>
proof -
  obtain n where n: "length repos = Suc n"
    using assms by (cases repos) auto
  have "map (\<lambda>repo. ''    '' @ [CHR 0x22] @ repo @ [CHR 0x22] @ '','') (take n repos) =
        map (\<lambda>i. ''    '' @ [CHR 0x22] @ repos ! i @ [CHR 0x22] @ '','') [0..<n]"
    using n by (intro take_as_map_nth) simp
  then show ?thesis
    by (simp add: repoListText_def n)
qed

section \<open>Traces\<close>

text \<open>
  Each observation of a trace distributes over appending, and each primitive of the
  world adds its own effect and changes its own part of the state.
\<close>

lemma firedStatusUpdates_append [simp]:
  "firedStatusUpdates (xs @ ys) = firedStatusUpdates xs @ firedStatusUpdates ys"
  by (induction xs rule: firedStatusUpdates.induct) simp_all

lemma downloadAttempts_append [simp]:
  "downloadAttempts (xs @ ys) = downloadAttempts xs @ downloadAttempts ys"
  by (induction xs rule: downloadAttempts.induct) simp_all

lemma fileWrites_append [simp]:
  "fileWrites (xs @ ys) = fileWrites xs @ fileWrites ys"
  by (induction xs rule: fileWrites.induct) simp_all

lemma clipboardWrites_append [simp]:
  "clipboardWrites (xs @ ys) = clipboardWrites xs @ clipboardWrites ys"
  by (induction xs rule: clipboardWrites.induct) simp_all

lemma loadedAnalyses_append [simp]:
  "loadedAnalyses (xs @ ys) = loadedAnalyses xs @ loadedAnalyses ys"
  by (induction xs rule: loadedAnalyses.induct) simp_all

lemma postedMessages_append [simp]:
  "postedMessages (xs @ ys) = postedMessages xs @ postedMessages ys"
  by (induction xs rule: postedMessages.induct) simp_all

lemma trace_emit [simp]: "trace (emit e w) = trace w @ [e]"
  by (simp add: emit_def)

lemma files_emit [simp]: "files (emit e w) = files w"
  by (simp add: emit_def)

lemma clipboard_emit [simp]: "clipboard (emit e w) = clipboard w"
  by (simp add: emit_def)

lemma dirs_emit [simp]: "dirs (emit e w) = dirs w"
  by (simp add: emit_def)

lemma storeJsonFile_written:
  assumes "dirname pf (join pf [storagePath pf, qid, fn]) \<in> dirs w"
  shows "storeJsonFile pf qid fn obj w =
     Inr (emit (WriteFile (join pf [storagePath pf, qid, fn]) (JSON_stringify pf obj))
            (w\<lparr>files := (files w)(join pf [storagePath pf, qid, fn] \<mapsto>
                 JSON_stringify pf obj)\<rparr>))"
  using assms by (simp add: storeJsonFile_def writeFile_def Let_def)

lemma storeJsonFile_rejected:
  assumes "dirname pf (join pf [storagePath pf, qid, fn]) \<notin> dirs w"
  shows "storeJsonFile pf qid fn obj w = Inl (NoSuchFile (join pf [storagePath pf, qid, fn]))"
  using assms by (simp add: storeJsonFile_def writeFile_def Let_def)

lemma trace_askToOpenResults:
  "\<exists>m. trace (askToOpenResults rq qr w) = trace w @ [ShowInformationMessageWithAction m ''View'']"
  by (simp add: askToOpenResults_def Let_def)

lemma files_askToOpenResults [simp]: "files (askToOpenResults rq qr w) = files w"
  by (simp add: askToOpenResults_def Let_def)

lemma effects_act [simp]: "effects (act e v) = effects v @ [e]"
  by (simp add: act_def)

lemma comparePair_act [simp]: "comparePair (act e v) = comparePair v"
  by (simp add: act_def)

section \<open>The trace of a download\<close>

text \<open>
  \<open>downloadAvailableResults\<close> asks for the result index first. With an index it goes
  on to ask for the metadata, fire \<open>Completed\<close> and write the file; when the write is
  accepted it starts the auto-download command and asks the user, and when the write
  is rejected it stops there and rejects. Without an index it shows the error and
  fires \<open>Failed\<close>.
\<close>

lemma successes_summaries:
  "analysisSummaries (mapQueryResult t idx qid md) = map (mapSuccessItem idx qid md) (successes idx)"
  by (simp add: mapQueryResult_def)

lemma sum_mapped_results:
  "sumAnalysisSummariesResults (map (mapSuccessItem idx qid md) items) =
     sum_list (map remote_query_success_index_item.resultCount items)"
  by (simp add: sumAnalysisSummariesResults_def o_def mapSuccessItem_def)

lemma downloadAvailableResults_trace_None:
  assumes "getRemoteQueryIndex sv rq = None"
  shows "fst (downloadAvailableResults pf sv qid rq t w) = None"
    and "\<exists>m. trace (snd (downloadAvailableResults pf sv qid rq t w)) =
           trace w @ [GetRemoteQueryIndex rq, ShowAndLogExceptionWithTelemetry m,
             FireStatusUpdate (failedEvent qid None)]"
    and "files (snd (downloadAvailableResults pf sv qid rq t w)) = files w"
  using assms by (simp_all add: downloadAvailableResults_def Let_def failedEvent_def)

lemma downloadAvailableResults_trace_written:
  assumes "getRemoteQueryIndex sv rq = Some idx"
    and "dirname pf (join pf [storagePath pf, qid, ''query-result.json'']) \<in> dirs w"
  shows "fst (downloadAvailableResults pf sv qid rq t w) = None"
    and "\<exists>m. trace (snd (downloadAvailableResults pf sv qid rq t w)) =
           trace w @ [GetRemoteQueryIndex rq,
             GetRepositoriesMetadata (map remote_query_success_index_item.nwo (successes idx)),
             FireStatusUpdate (completedEvent qid idx),
             WriteFile (join pf [storagePath pf, qid, ''query-result.json''])
               (JSON_stringify pf (mappedResult sv t idx qid)),
             ExecuteCommand ''codeQL.autoDownloadRemoteQueryResults'' (mappedResult sv t idx qid),
             ShowInformationMessageWithAction m ''View'']"
    and "files (snd (downloadAvailableResults pf sv qid rq t w)) =
           (files w)(join pf [storagePath pf, qid, ''query-result.json''] \<mapsto>
              JSON_stringify pf (mappedResult sv t idx qid))"
  using assms
  by (simp_all add: downloadAvailableResults_def Let_def storeJsonFile_written
      askToOpenResults_def completedEvent_def mappedResult_def sum_mapped_results
      successes_summaries)

lemma downloadAvailableResults_trace_rejected:
  assumes "getRemoteQueryIndex sv rq = Some idx"
    and "dirname pf (join pf [storagePath pf, qid, ''query-result.json'']) \<notin> dirs w"
  shows "fst (downloadAvailableResults pf sv qid rq t w) =
           Some (NoSuchFile (join pf [storagePath pf, qid, ''query-result.json'']))"
    and "trace (snd (downloadAvailableResults pf sv qid rq t w)) =
           trace w @ [GetRemoteQueryIndex rq,
             GetRepositoriesMetadata (map remote_query_success_index_item.nwo (successes idx)),
             FireStatusUpdate (completedEvent qid idx)]"
    and "files (snd (downloadAvailableResults pf sv qid rq t w)) = files w"
  using assms
  by (simp_all add: downloadAvailableResults_def Let_def storeJsonFile_rejected
      completedEvent_def sum_mapped_results successes_summaries)

lemma downloadAvailableResults_attempt:
  "\<exists>rest. trace (snd (downloadAvailableResults pf sv qid rq t w)) =
            trace w @ GetRemoteQueryIndex rq # rest \<and> downloadAttempts rest = []"
proof (cases "getRemoteQueryIndex sv rq")
  case None
  from downloadAvailableResults_trace_None(2) [OF None, of pf qid t w]
  show ?thesis by auto
next
  case (Some idx)
  show ?thesis
  proof (cases "dirname pf (join pf [storagePath pf, qid, ''query-result.json'']) \<in> dirs w")
    case True
    from downloadAvailableResults_trace_written(2) [OF Some True, of t]
    show ?thesis by auto
  next
    case False
    from downloadAvailableResults_trace_rejected(2) [OF Some False, of t]
    show ?thesis by auto
  qed
qed

lemma trace_downloadThenInform:
  "\<exists>rest. trace (snd (downloadThenInform r m)) = trace (snd r) @ rest \<and>
          downloadAttempts rest = []"
  by (cases r; cases "fst r") (auto simp: downloadThenInform_def)

lemma trace_monitor_cancel_branch:
  "\<exists>rest. trace (snd (downloadThenInform
             (downloadAvailableResults pf sv qid rq t
                (emit (FireStatusUpdate ev) (emit (MonitorQuery rq) w))) m)) =
            trace w @ [MonitorQuery rq, FireStatusUpdate ev, GetRemoteQueryIndex rq] @ rest
          \<and> downloadAttempts rest = []"
proof -
  let ?d = "downloadAvailableResults pf sv qid rq t
      (emit (FireStatusUpdate ev) (emit (MonitorQuery rq) w))"
  obtain rest where r: "trace (snd ?d) =
      trace (emit (FireStatusUpdate ev) (emit (MonitorQuery rq) w)) @ GetRemoteQueryIndex rq # rest"
    and d: "downloadAttempts rest = []"
    using downloadAvailableResults_attempt by blast
  obtain more where m: "trace (snd (downloadThenInform ?d m)) = trace (snd ?d) @ more"
    and dm: "downloadAttempts more = []"
    using trace_downloadThenInform by blast
  have "trace (snd (downloadThenInform ?d m)) =
        trace w @ [MonitorQuery rq, FireStatusUpdate ev, GetRemoteQueryIndex rq] @ (rest @ more)"
    by (simp add: m r)
  moreover have "downloadAttempts (rest @ more) = []"
    by (simp add: d dm)
  ultimately show ?thesis by blast
qed

lemma autoDownload_truncates:
  "length (analysesToDownload (example_result (replicate 150 (example_summary ''a/small'' 1000 3))))
     = 100"
  by (simp add: analysesToDownload_def example_result_def example_summary_def
      autoDownloadMaxSize_def autoDownloadMaxCount_def)

section \<open>The selection that the compare view diffs\<close>

text \<open>
  \<open>showResults\<close> keeps in the compare pair the names that \<open>findCommonResultSetNames\<close>
  answers for the schemas of the two queries. The two result sets that are diffed are
  the ones \<open>findResultSetNames\<close> names, and the view checks of each only that the
  schemas of its own side hold a result set of that name: it diffs whatever pair
  \<open>findResultSetNames\<close> picks, also a pair of different names.
\<close>

lemma getResultSet_Inr_schema:
  "getResultSet deps info resultSetName path = Inr rs \<Longrightarrow>
   resultSetName \<in> bqrs_result_set_schema.name ` set (result_sets info)"
  by (auto simp: getResultSet_def find_Some_iff split: option.splits)

lemma findResultSetsToCompare_names:
  assumes "findResultSetsToCompare deps pair selected = Inr (displayName, fromResultSet, toResultSet)"
  shows "\<exists>names. findResultSetNames deps (fromSchemas pair) (toSchemas pair)
                    (commonResultSetNames pair) selected = Inr names
           \<and> displayName = currentResultSetDisplayName names
           \<and> fromResultSetName names \<in>
               bqrs_result_set_schema.name ` set (result_sets (fromSchemas pair))
           \<and> toResultSetName names \<in>
               bqrs_result_set_schema.name ` set (result_sets (toSchemas pair))"
  using assms
  by (auto simp: findResultSetsToCompare_def split: sum.splits dest: getResultSet_Inr_schema)

lemma comparePair_showResultsInternal:
  "comparePair (snd (showResultsInternal deps selected v)) = comparePair v"
  by (auto simp: showResultsInternal_def Let_def split: option.splits sum.splits prod.splits)

lemma showResults_comparePair:
  "comparePair (snd (showResults deps from_q to_q selected v)) =
     Some \<lparr> from_info = from_q, fromSchemas = bqrsInfo deps (resultsPath from_q),
            to_info = to_q, toSchemas = bqrsInfo deps (resultsPath to_q),
            commonResultSetNames =
              findCommonResultSetNames deps (bqrsInfo deps (resultsPath from_q))
                (bqrsInfo deps (resultsPath to_q)) \<rparr>"
  by (simp add: showResults_def Let_def comparePair_showResultsInternal)

lemma view_passes_on_what_findResultSetNames_picks:
  "findResultSetsToCompare mismatched_deps example_pair None =
     Inr (Some ''#select <-> edges'', [1, 2, 3], [7])"
  by (simp add: findResultSetsToCompare_def getResultSet_def mismatched_deps_def
      example_deps_def example_pair_def example_bqrs_def example_info_def)

section \<open>The claims\<close>

text \<open>
  C1. \<open>autoDownloadRemoteQueryResults\<close> hands to the analyses-results manager the
  summaries whose \<open>fileSizeInBytes\<close> is strictly below \<open>300 * 1024 = 307200\<close>, at most
  the first 100 of them and in their original order; each descriptor keeps the
  summary's \<open>nwo\<close>, \<open>databaseSha\<close>, \<open>resultCount\<close>, \<open>sourceLocationPrefix\<close> and
  \<open>downloadLink\<close>, and its \<open>fileSize\<close> is the decimal string of \<open>fileSizeInBytes\<close>: a
  string of digits whose value is that number.
\<close>

theorem autoDownload_selection:
  "let eligible = filter (\<lambda>a. fileSizeInBytes a < 307200) (analysisSummaries queryResult);
       selected = take 100 eligible;
       ds = analysesToDownload queryResult
   in loadedAnalyses (trace (autoDownloadRemoteQueryResults queryResult w)) =
        loadedAnalyses (trace w) @ [(ds, remote_query_result.queryId queryResult)]
    \<and> length ds = min 100 (length eligible)
    \<and> map analysis_to_download.nwo ds = map analysis_summary.nwo selected
    \<and> map analysis_to_download.databaseSha ds = map analysis_summary.databaseSha selected
    \<and> map analysis_to_download.resultCount ds = map analysis_summary.resultCount selected
    \<and> map analysis_to_download.sourceLocationPrefix ds =
        map analysis_summary.sourceLocationPrefix selected
    \<and> map analysis_to_download.downloadLink ds = map analysis_summary.downloadLink selected
    \<and> map fileSize ds = map (\<lambda>a. toString (fileSizeInBytes a)) selected
    \<and> map (\<lambda>d. decimal_value (fileSize d)) ds = map fileSizeInBytes selected
    \<and> list_all (\<lambda>d. list_all is_digit (fileSize d)) ds"
  by (simp add: Let_def autoDownloadRemoteQueryResults_def emit_def analysesToDownload_def
      autoDownloadMaxSize_def autoDownloadMaxCount_def toAnalysisToDownload_def o_def
      decimal_value_toString toString_digits list.pred_map list.pred_True min.commute)

theorem autoDownload_selection_witness:
  "map fileSize (analysesToDownload (example_result
      [example_summary ''a/small'' 1000 3, example_summary ''b/large'' 307200 1,
       example_summary ''c/edge'' 307199 0])) = [''1000'', ''307199'']
   \<and> map analysis_to_download.nwo (analysesToDownload (example_result
      [example_summary ''a/small'' 1000 3, example_summary ''b/large'' 307200 1,
       example_summary ''c/edge'' 307199 0])) = [''a/small'', ''c/edge'']"
  using autoDownload_selection [of "example_result
      [example_summary ''a/small'' 1000 3, example_summary ''b/large'' 307200 1,
       example_summary ''c/edge'' 307199 0]" empty_world]
  by (simp add: Let_def example_result_def example_summary_def toString_eval)

text \<open>
  C2, as stated, fails on a disk where the directory of the query does not exist:
  \<open>storeJsonFile\<close> creates no directory, the write is rejected, and nothing is there
  to retrieve.
\<close>

theorem storeJsonFile_retrieveJsonFile_counterexample:
  "JSON_parse number_platform (JSON_stringify number_platform 42) = Inr 42
   \<and> storeJsonFile number_platform ''q1'' ''count.json'' 42 empty_world =
       Inl (NoSuchFile ''/storage/q1/count.json'')
   \<and> retrieveJsonFile number_platform ''q1'' ''count.json'' empty_world \<noteq> Inr 42"
  by (simp add: number_platform_roundtrip)
     (simp add: storeJsonFile_def writeFile_def retrieveJsonFile_def readFile_def Let_def
        number_platform_def parent_directory_def empty_world_def)

text \<open>
  C2, amended. Write, then read, where the directory that is to hold the file exists:
  for an object that JSON carries faithfully, that is, one that \<open>JSON.parse\<close> gives
  back from its \<open>JSON.stringify\<close> text, \<open>storeJsonFile\<close> resolves, and
  \<open>retrieveJsonFile\<close> with the same query id and file name returns the object, both at
  once and in every later world in which the file at that path is as the store left
  it (no write to and no removal of that path in between).
\<close>

theorem storeJsonFile_retrieveJsonFile:
  assumes "JSON_parse pf (JSON_stringify pf obj) = Inr obj"
    and "dirname pf (join pf [storagePath pf, qid, fileName]) \<in> dirs w"
  shows "\<exists>w1. storeJsonFile pf qid fileName obj w = Inr w1
          \<and> retrieveJsonFile pf qid fileName w1 = Inr obj
          \<and> (\<forall>w'. files w' (join pf [storagePath pf, qid, fileName]) =
                     files w1 (join pf [storagePath pf, qid, fileName]) \<longrightarrow>
                   retrieveJsonFile pf qid fileName w' = Inr obj)"
  using assms
  by (simp add: storeJsonFile_written retrieveJsonFile_def readFile_def Let_def emit_def)

theorem storeJsonFile_retrieveJsonFile_witness:
  "\<exists>w1. storeJsonFile number_platform ''q1'' ''count.json'' 42 prepared_world = Inr w1
      \<and> retrieveJsonFile number_platform ''q1'' ''count.json'' w1 = Inr 42
      \<and> files w1 ''/storage/q1/count.json'' = Some ''42''
      \<and> retrieveJsonFile number_platform ''q1'' ''count.json''
           (w1\<lparr>files := (files w1)(''/storage/q2/count.json'' \<mapsto> ''7''), clipboard := ''x''\<rparr>)
         = Inr 42"
proof -
  have d: "dirname number_platform
             (join number_platform [storagePath number_platform, ''q1'', ''count.json''])
           \<in> dirs prepared_world"
    by (simp add: number_platform_def parent_directory_def prepared_world_def)
  obtain w1 where s: "storeJsonFile number_platform ''q1'' ''count.json'' 42 prepared_world = Inr w1"
    and r: "retrieveJsonFile number_platform ''q1'' ''count.json'' w1 = Inr 42"
    and l: "\<And>w'. files w' (join number_platform
                 [storagePath number_platform, ''q1'', ''count.json'']) =
               files w1 (join number_platform
                 [storagePath number_platform, ''q1'', ''count.json'']) \<Longrightarrow>
             retrieveJsonFile number_platform ''q1'' ''count.json'' w' = Inr 42"
    using storeJsonFile_retrieveJsonFile [OF number_platform_roundtrip d] by blast
  have f: "files w1 ''/storage/q1/count.json'' = Some ''42''"
    using s
    by (auto simp: storeJsonFile_def writeFile_def Let_def number_platform_def
        parent_directory_def prepared_world_def emit_def toString_eval)
  have "retrieveJsonFile number_platform ''q1'' ''count.json''
           (w1\<lparr>files := (files w1)(''/storage/q2/count.json'' \<mapsto> ''7''), clipboard := ''x''\<rparr>)
         = Inr 42"
    by (rule l) (simp add: number_platform_def)
  with s r f show ?thesis by blast
qed

text \<open>
  C4, as stated, fails on a disk where the directory of the query does not exist: a
  result index is available and \<open>Completed\<close> is fired, but the write is rejected, the
  method rejects with it, and no \<open>query-result.json\<close> is persisted.
\<close>

theorem downloadAvailableResults_persists_counterexample:
  "getRemoteQueryIndex
     (example_services (example_workflow_result CompletedSuccessfully None)
        (Some (example_index [example_item None (Some 512), example_item None None])))
     example_query \<noteq> None
   \<and> firedStatusUpdates (trace (snd (downloadAvailableResults
        (example_platform (example_result []))
        (example_services (example_workflow_result CompletedSuccessfully None)
           (Some (example_index [example_item None (Some 512), example_item None None])))
        ''q1'' example_query 1000 empty_world))) =
      [\<lparr> updated_query_status_event.queryId = ''q1'',
         updated_query_status_event.status = QueryStatus_Completed,
         failureReason = None, repositoryCount = Some 2,
         updated_query_status_event.resultCount = Some 10 \<rparr>]
   \<and> fst (downloadAvailableResults
        (example_platform (example_result []))
        (example_services (example_workflow_result CompletedSuccessfully None)
           (Some (example_index [example_item None (Some 512), example_item None None])))
        ''q1'' example_query 1000 empty_world) =
      Some (NoSuchFile ''/storage/q1/query-result.json'')
   \<and> files (snd (downloadAvailableResults
        (example_platform (example_result []))
        (example_services (example_workflow_result CompletedSuccessfully None)
           (Some (example_index [example_item None (Some 512), example_item None None])))
        ''q1'' example_query 1000 empty_world)) ''/storage/q1/query-result.json'' = None"
proof -
  let ?sv = "example_services (example_workflow_result CompletedSuccessfully None)
           (Some (example_index [example_item None (Some 512), example_item None None]))"
  let ?pf = "example_platform (example_result [])"
  have i: "getRemoteQueryIndex ?sv example_query =
      Some (example_index [example_item None (Some 512), example_item None None])"
    by (simp add: example_services_def)
  have d: "dirname ?pf (join ?pf [storagePath ?pf, ''q1'', ''query-result.json''])
           \<notin> dirs empty_world"
    by (simp add: empty_world_def)
  have r: "firedStatusUpdates (trace (snd (downloadAvailableResults ?pf ?sv ''q1''
          example_query 1000 empty_world))) =
      [\<lparr> updated_query_status_event.queryId = ''q1'',
         updated_query_status_event.status = QueryStatus_Completed,
         failureReason = None, repositoryCount = Some 2,
         updated_query_status_event.resultCount = Some 10 \<rparr>]
    \<and> fst (downloadAvailableResults ?pf ?sv ''q1'' example_query 1000 empty_world) =
      Some (NoSuchFile ''/storage/q1/query-result.json'')
    \<and> files (snd (downloadAvailableResults ?pf ?sv ''q1'' example_query 1000 empty_world))
        ''/storage/q1/query-result.json'' = None"
    using downloadAvailableResults_trace_rejected [OF i d, of 1000]
    by (simp add: completedEvent_def example_index_def example_item_def example_platform_def
        empty_world_def)
  from i r show ?thesis by simp
qed

text \<open>
  C4, amended. \<open>downloadAvailableResults\<close>: when a result index is available, the one
  status event it fires is \<open>Completed\<close> with \<open>repositoryCount\<close> the number of
  successful analyses of the index and \<open>resultCount\<close> the sum of their result counts;
  then, when the directory that is to hold \<open>query-result.json\<close> under the query's
  directory of the storage path exists, its one write to disk puts the mapped result
  there, as JSON, and the method resolves, and when that directory does not exist the
  method rejects with the error of the write and the disk is as before. When no index
  is available, the one event is \<open>Failed\<close> without a failure reason, nothing is
  written to disk, and the method resolves.
\<close>

theorem downloadAvailableResults_outcome:
  "let run = downloadAvailableResults pf sv qid remoteQuery endTime w;
       w' = snd run;
       filePath = join pf [storagePath pf, qid, ''query-result.json'']
   in (case getRemoteQueryIndex sv remoteQuery of
         Some resultIndex \<Rightarrow>
           (let metadata = getRepositoriesMetadata sv
                  (map remote_query_success_index_item.nwo (successes resultIndex));
                content = JSON_stringify pf (mapQueryResult endTime resultIndex qid metadata)
            in firedStatusUpdates (trace w') = firedStatusUpdates (trace w) @
                 [\<lparr> updated_query_status_event.queryId = qid,
                    updated_query_status_event.status = QueryStatus_Completed,
                    failureReason = None,
                    repositoryCount = Some (length (successes resultIndex)),
                    updated_query_status_event.resultCount =
                      Some (sum_list (map remote_query_success_index_item.resultCount
                        (successes resultIndex))) \<rparr>]
             \<and> (if dirname pf filePath \<in> dirs w
                 then fst run = None
                    \<and> fileWrites (trace w') = fileWrites (trace w) @ [(filePath, content)]
                    \<and> files w' = (files w)(filePath \<mapsto> content)
                 else fst run = Some (NoSuchFile filePath)
                    \<and> fileWrites (trace w') = fileWrites (trace w)
                    \<and> files w' = files w))
       | None \<Rightarrow>
           fst run = None
         \<and> firedStatusUpdates (trace w') = firedStatusUpdates (trace w) @
             [\<lparr> updated_query_status_event.queryId = qid,
                updated_query_status_event.status = QueryStatus_Failed,
                failureReason = None,
                repositoryCount = None,
                updated_query_status_event.resultCount = None \<rparr>]
         \<and> fileWrites (trace w') = fileWrites (trace w)
         \<and> files w' = files w)"
proof (cases "getRemoteQueryIndex sv remoteQuery")
  case None
  from downloadAvailableResults_trace_None [OF None, of pf qid endTime w]
  show ?thesis using None by (auto simp: Let_def failedEvent_def)
next
  case (Some idx)
  show ?thesis
  proof (cases "dirname pf (join pf [storagePath pf, qid, ''query-result.json'']) \<in> dirs w")
    case True
    from downloadAvailableResults_trace_written [OF Some True, of endTime]
    show ?thesis using Some True by (auto simp: Let_def completedEvent_def mappedResult_def)
  next
    case False
    from downloadAvailableResults_trace_rejected [OF Some False, of endTime]
    show ?thesis using Some False by (auto simp: Let_def completedEvent_def)
  qed
qed

theorem downloadAvailableResults_outcome_witness:
  "firedStatusUpdates (trace (snd (downloadAvailableResults (example_platform (example_result []))
      (example_services (example_workflow_result CompletedSuccessfully None)
         (Some (example_index [example_item None (Some 512), example_item None None])))
      ''q1'' example_query 1000 prepared_world))) =
     [\<lparr> updated_query_status_event.queryId = ''q1'',
        updated_query_status_event.status = QueryStatus_Completed,
        failureReason = None, repositoryCount = Some 2,
        updated_query_status_event.resultCount = Some 10 \<rparr>]
   \<and> fst (downloadAvailableResults (example_platform (example_result []))
      (example_services (example_workflow_result CompletedSuccessfully None)
         (Some (example_index [example_item None (Some 512), example_item None None])))
      ''q1'' example_query 1000 prepared_world) = None
   \<and> files (snd (downloadAvailableResults (example_platform (example_result []))
      (example_services (example_workflow_result CompletedSuccessfully None)
         (Some (example_index [example_item None (Some 512), example_item None None])))
      ''q1'' example_query 1000 prepared_world)) ''/storage/q1/query-result.json'' = Some ''{}''
   \<and> firedStatusUpdates (trace (snd (downloadAvailableResults
      (example_platform (example_result []))
      (example_services (example_workflow_result CompletedSuccessfully None) None)
      ''q1'' example_query 1000 prepared_world))) =
     [\<lparr> updated_query_status_event.queryId = ''q1'',
        updated_query_status_event.status = QueryStatus_Failed,
        failureReason = None, repositoryCount = None,
        updated_query_status_event.resultCount = None \<rparr>]
   \<and> files (snd (downloadAvailableResults (example_platform (example_result []))
      (example_services (example_workflow_result CompletedSuccessfully None) None)
      ''q1'' example_query 1000 prepared_world)) = Map.empty"
  using downloadAvailableResults_outcome [of "example_platform (example_result [])"
      "example_services (example_workflow_result CompletedSuccessfully None)
         (Some (example_index [example_item None (Some 512), example_item None None]))"
      "''q1''" example_query 1000 prepared_world]
    downloadAvailableResults_outcome [of "example_platform (example_result [])"
      "example_services (example_workflow_result CompletedSuccessfully None) None"
      "''q1''" example_query 1000 prepared_world]
  by (simp add: Let_def example_platform_def example_services_def example_index_def
      example_item_def prepared_world_def parent_directory_def)

text \<open>
  C5. \<open>monitorRemoteQuery\<close>: when the workflow status is \<open>Cancelled\<close>, or
  \<open>CompletedUnsuccessfully\<close> with an error that contains \<open>cancelled\<close>, the manager
  fires \<open>Failed\<close> with failure reason \<open>Cancelled\<close> and then asks for the result index,
  once: it still attempts the download. When the status is \<open>CompletedUnsuccessfully\<close>
  and the error does not contain \<open>cancelled\<close>, the one event fired is \<open>Failed\<close> with
  the workflow's error as failure reason, and no download is attempted.
\<close>

theorem monitorRemoteQuery_failure_cases:
  "let r = monitorQuery sv remoteQuery;
       cancelled = (\<exists>msg p q. query_workflow_result.error r = Some msg \<and>
                      msg = p @ ''cancelled'' @ q);
       w' = snd (monitorRemoteQuery pf sv qid remoteQuery w)
   in (query_workflow_result.status r = Cancelled \<or>
       query_workflow_result.status r = CompletedUnsuccessfully \<and> cancelled \<longrightarrow>
         (\<exists>rest. trace w' = trace w @
              [MonitorQuery remoteQuery,
               FireStatusUpdate
                 \<lparr> updated_query_status_event.queryId = qid,
                   updated_query_status_event.status = QueryStatus_Failed,
                   failureReason = Some ''Cancelled'',
                   repositoryCount = None,
                   updated_query_status_event.resultCount = None \<rparr>,
               GetRemoteQueryIndex remoteQuery] @ rest
            \<and> downloadAttempts rest = []))
    \<and> (query_workflow_result.status r = CompletedUnsuccessfully \<and> \<not> cancelled \<longrightarrow>
         firedStatusUpdates (trace w') = firedStatusUpdates (trace w) @
           [\<lparr> updated_query_status_event.queryId = qid,
              updated_query_status_event.status = QueryStatus_Failed,
              failureReason = query_workflow_result.error r,
              repositoryCount = None,
              updated_query_status_event.resultCount = None \<rparr>]
         \<and> downloadAttempts (trace w') = downloadAttempts (trace w))"
proof -
  have c: "error_includes_cancelled e \<longleftrightarrow> (\<exists>msg p q. e = Some msg \<and> msg = p @ ''cancelled'' @ q)"
    for e
    by (cases e) (simp_all add: error_includes_cancelled_def string_includes_iff)
  show ?thesis
    unfolding Let_def
  proof (intro conjI impI)
    assume a: "query_workflow_result.status (monitorQuery sv remoteQuery) = Cancelled \<or>
       query_workflow_result.status (monitorQuery sv remoteQuery) = CompletedUnsuccessfully \<and>
       (\<exists>msg p q. query_workflow_result.error (monitorQuery sv remoteQuery) = Some msg \<and>
          msg = p @ ''cancelled'' @ q)"
    then have "monitorRemoteQuery pf sv qid remoteQuery w =
        downloadThenInform
          (downloadAvailableResults pf sv qid remoteQuery (now sv)
            (emit (FireStatusUpdate (failedEvent qid (Some ''Cancelled'')))
              (emit (MonitorQuery remoteQuery) w)))
          ''Variant analysis was cancelled''"
      by (auto simp: monitorRemoteQuery_def Let_def c)
    then show "\<exists>rest. trace (snd (monitorRemoteQuery pf sv qid remoteQuery w)) = trace w @
              [MonitorQuery remoteQuery,
               FireStatusUpdate
                 \<lparr> updated_query_status_event.queryId = qid,
                   updated_query_status_event.status = QueryStatus_Failed,
                   failureReason = Some ''Cancelled'',
                   repositoryCount = None,
                   updated_query_status_event.resultCount = None \<rparr>,
               GetRemoteQueryIndex remoteQuery] @ rest
            \<and> downloadAttempts rest = []"
      using trace_monitor_cancel_branch [where pf = pf and sv = sv and qid = qid
          and rq = remoteQuery and t = "now sv" and w = w
          and ev = "failedEvent qid (Some ''Cancelled'')"
          and m = "''Variant analysis was cancelled''"]
      by (simp add: failedEvent_def)
  next
    assume a: "query_workflow_result.status (monitorQuery sv remoteQuery) = CompletedUnsuccessfully \<and>
       \<not> (\<exists>msg p q. query_workflow_result.error (monitorQuery sv remoteQuery) = Some msg \<and>
          msg = p @ ''cancelled'' @ q)"
    then have st: "query_workflow_result.status (monitorQuery sv remoteQuery) = CompletedUnsuccessfully"
      and nc: "\<not> error_includes_cancelled (query_workflow_result.error (monitorQuery sv remoteQuery))"
      unfolding c by blast+
    show "firedStatusUpdates (trace (snd (monitorRemoteQuery pf sv qid remoteQuery w))) =
        firedStatusUpdates (trace w) @
           [\<lparr> updated_query_status_event.queryId = qid,
              updated_query_status_event.status = QueryStatus_Failed,
              failureReason = query_workflow_result.error (monitorQuery sv remoteQuery),
              repositoryCount = None,
              updated_query_status_event.resultCount = None \<rparr>]"
      by (simp add: monitorRemoteQuery_def Let_def st nc failedEvent_def)
  next
    assume a: "query_workflow_result.status (monitorQuery sv remoteQuery) = CompletedUnsuccessfully \<and>
       \<not> (\<exists>msg p q. query_workflow_result.error (monitorQuery sv remoteQuery) = Some msg \<and>
          msg = p @ ''cancelled'' @ q)"
    then have st: "query_workflow_result.status (monitorQuery sv remoteQuery) = CompletedUnsuccessfully"
      and nc: "\<not> error_includes_cancelled (query_workflow_result.error (monitorQuery sv remoteQuery))"
      unfolding c by blast+
    show "downloadAttempts (trace (snd (monitorRemoteQuery pf sv qid remoteQuery w))) =
        downloadAttempts (trace w)"
      by (simp add: monitorRemoteQuery_def Let_def st nc)
  qed
qed

theorem monitorRemoteQuery_failure_cases_witness:
  "take 3 (trace (snd (monitorRemoteQuery (example_platform (example_result []))
       (example_services (example_workflow_result Cancelled None) None)
       ''q1'' example_query empty_world))) =
     [MonitorQuery example_query,
      FireStatusUpdate (failedEvent ''q1'' (Some ''Cancelled'')),
      GetRemoteQueryIndex example_query]
   \<and> take 3 (trace (snd (monitorRemoteQuery (example_platform (example_result []))
       (example_services
          (example_workflow_result CompletedUnsuccessfully (Some ''The run was cancelled.''))
          None)
       ''q1'' example_query empty_world))) =
     [MonitorQuery example_query,
      FireStatusUpdate (failedEvent ''q1'' (Some ''Cancelled'')),
      GetRemoteQueryIndex example_query]
   \<and> firedStatusUpdates (trace (snd (monitorRemoteQuery (example_platform (example_result []))
       (example_services (example_workflow_result CompletedUnsuccessfully (Some ''boom'')) None)
       ''q1'' example_query empty_world))) = [failedEvent ''q1'' (Some ''boom'')]
   \<and> downloadAttempts (trace (snd (monitorRemoteQuery (example_platform (example_result []))
       (example_services (example_workflow_result CompletedUnsuccessfully (Some ''boom'')) None)
       ''q1'' example_query empty_world))) = []"
proof -
  let ?pf = "example_platform (example_result [])"
  have yes: "\<exists>msg p q. Some ''The run was cancelled.'' = Some msg \<and> msg = p @ ''cancelled'' @ q"
  proof -
    have "''The run was cancelled.'' = ''The run was '' @ ''cancelled'' @ ''.''" by simp
    then show ?thesis by blast
  qed
  have "\<not> string_includes ''boom'' ''cancelled''" by simp
  then have no: "\<not> (\<exists>msg p q. Some ''boom'' = Some msg \<and> msg = p @ ''cancelled'' @ q)"
    unfolding string_includes_iff by blast
  have 1: "take 3 (trace (snd (monitorRemoteQuery ?pf
       (example_services (example_workflow_result Cancelled None) None)
       ''q1'' example_query empty_world))) =
     [MonitorQuery example_query,
      FireStatusUpdate (failedEvent ''q1'' (Some ''Cancelled'')),
      GetRemoteQueryIndex example_query]"
    using monitorRemoteQuery_failure_cases [of
        "example_services (example_workflow_result Cancelled None) None" example_query
        ?pf "''q1''" empty_world]
    by (auto simp: Let_def example_services_def example_workflow_result_def empty_world_def
        failedEvent_def)
  have 2: "take 3 (trace (snd (monitorRemoteQuery ?pf
       (example_services
          (example_workflow_result CompletedUnsuccessfully (Some ''The run was cancelled.''))
          None)
       ''q1'' example_query empty_world))) =
     [MonitorQuery example_query,
      FireStatusUpdate (failedEvent ''q1'' (Some ''Cancelled'')),
      GetRemoteQueryIndex example_query]"
    using yes monitorRemoteQuery_failure_cases [of
        "example_services
          (example_workflow_result CompletedUnsuccessfully (Some ''The run was cancelled.''))
          None" example_query ?pf "''q1''" empty_world]
    by (auto simp: Let_def example_services_def example_workflow_result_def empty_world_def
        failedEvent_def)
  have 3: "firedStatusUpdates (trace (snd (monitorRemoteQuery ?pf
       (example_services (example_workflow_result CompletedUnsuccessfully (Some ''boom'')) None)
       ''q1'' example_query empty_world))) = [failedEvent ''q1'' (Some ''boom'')]
     \<and> downloadAttempts (trace (snd (monitorRemoteQuery ?pf
       (example_services (example_workflow_result CompletedUnsuccessfully (Some ''boom'')) None)
       ''q1'' example_query empty_world))) = []"
    using no monitorRemoteQuery_failure_cases [of
        "example_services (example_workflow_result CompletedUnsuccessfully (Some ''boom'')) None"
        example_query ?pf "''q1''" empty_world]
    by (simp add: Let_def example_services_def example_workflow_result_def empty_world_def
        failedEvent_def)
  from 1 2 3 show ?thesis by simp
qed

text \<open>
  C6. \<open>showResultsInternal\<close>, when a compare pair is set and a current result-set
  display name is found (\<open>findResultSetsToCompare\<close> returns, with a non-empty name):
  the method resolves and posts exactly one message, a \<open>setComparisons\<close> for that
  name. When \<open>resultsDiff\<close> throws, the message carries the error message of the
  exception and no result; otherwise it carries the result and no message.
\<close>

theorem showResultsInternal_posts_setComparisons:
  assumes "comparePair v = Some pair"
    and "findResultSetsToCompare deps pair selectedResultSetName =
           Inr (Some displayName, fromResultSet, toResultSet)"
    and "displayName \<noteq> []"
  shows "\<exists>v'. showResultsInternal deps selectedResultSetName v = (None, v')
          \<and> comparePair v' = comparePair v
          \<and> postedMessages (effects v') = postedMessages (effects v) @
               [case resultsDiff deps fromResultSet toResultSet of
                  Inr r \<Rightarrow> SetComparisons (Some r) displayName None
                | Inl e \<Rightarrow> SetComparisons None displayName (Some (getErrorMessage deps e))]"
  using assms
  by (cases "resultsDiff deps fromResultSet toResultSet")
     (simp_all add: showResultsInternal_def Let_def truthy_string_def compareResults_def)

theorem showResultsInternal_posts_setComparisons_witness:
  "(\<exists>v'. showResultsInternal (example_deps (Inl (Error ''CodeQL Compare: Columns do not match.'')))
            None (example_view (Some example_pair)) = (None, v')
        \<and> postedMessages (effects v') =
            [SetComparisons None ''#select'' (Some ''CodeQL Compare: Columns do not match.'')])
   \<and> (\<exists>v'. showResultsInternal (example_deps (Inr ''diff''))
            None (example_view (Some example_pair)) = (None, v')
        \<and> postedMessages (effects v') = [SetComparisons (Some ''diff'') ''#select'' None])"
proof -
  have p: "comparePair (example_view (Some example_pair)) = Some example_pair"
    by (simp add: example_view_def)
  have f: "findResultSetsToCompare (example_deps d) example_pair None =
             Inr (Some ''#select'', [1, 2, 3], [1, 2, 3])" for d
    by (simp add: findResultSetsToCompare_def getResultSet_def example_deps_def example_pair_def
        example_bqrs_def example_info_def)
  have n: "''#select'' \<noteq> []" by simp
  show ?thesis
    using showResultsInternal_posts_setComparisons [OF p f n,
        of "Inl (Error ''CodeQL Compare: Columns do not match.'')"]
      showResultsInternal_posts_setComparisons [OF p f n, of "Inr ''diff''"]
    by (auto simp: example_deps_def example_view_def)
qed

text \<open>
  C8. For the success item at every position of the result index, the summary that
  \<open>mapQueryResult\<close> produces at that position has \<open>databaseSha\<close> equal to the item's
  \<open>sha\<close> when that is present and non-empty and \<open>HEAD\<close> otherwise, \<open>fileSizeInBytes\<close>
  equal to \<open>sarifFileSize\<close> when that is present and non-zero (truthy) and
  \<open>bqrsFileSize\<close> otherwise, the inner file path \<open>results.sarif\<close> exactly when
  \<open>sarifFileSize\<close> is truthy and \<open>results.bqrs\<close> otherwise, and the URL path made of
  the index's \<open>artifactsUrlPath\<close>, a slash and the item's \<open>artifactId\<close>.
\<close>

theorem mapQueryResult_summary:
  assumes "i < length (successes resultIndex)"
  shows "let item = successes resultIndex ! i;
             summaries = analysisSummaries (mapQueryResult endTime resultIndex qid metadata);
             s = summaries ! i
         in length summaries = length (successes resultIndex)
          \<and> analysis_summary.databaseSha s =
              (case sha item of None \<Rightarrow> ''HEAD'' | Some x \<Rightarrow> if x = [] then ''HEAD'' else x)
          \<and> fileSizeInBytes s =
              (case sarifFileSize item of
                 None \<Rightarrow> bqrsFileSize item
               | Some n \<Rightarrow> if n = 0 then bqrsFileSize item else n)
          \<and> (innerFilePath (analysis_summary.downloadLink s) = ''results.sarif'' \<longleftrightarrow>
               (\<exists>n. sarifFileSize item = Some n \<and> n \<noteq> 0))
          \<and> (innerFilePath (analysis_summary.downloadLink s) = ''results.bqrs'' \<longleftrightarrow>
               \<not> (\<exists>n. sarifFileSize item = Some n \<and> n \<noteq> 0))
          \<and> urlPath (analysis_summary.downloadLink s) =
              artifactsUrlPath resultIndex @ ''/'' @ toString (artifactId item)"
  using assms
  by (simp add: Let_def mapQueryResult_def mapSuccessItem_def truthy_string_def
      truthy_number_def split: option.splits)

theorem mapQueryResult_summary_witness:
  "(1::nat) < length (successes (example_index
       [example_item (Some ''abc'') (Some 512), example_item (Some []) (Some 0)]))
   \<and> analysis_summary.databaseSha (analysisSummaries (mapQueryResult 1000 (example_index
       [example_item (Some ''abc'') (Some 512), example_item (Some []) (Some 0)])
       ''q1'' Map.empty) ! 1) = ''HEAD''
   \<and> fileSizeInBytes (analysisSummaries (mapQueryResult 1000 (example_index
       [example_item (Some ''abc'') (Some 512), example_item (Some []) (Some 0)])
       ''q1'' Map.empty) ! 1) = 2048
   \<and> innerFilePath (analysis_summary.downloadLink (analysisSummaries (mapQueryResult 1000
       (example_index [example_item (Some ''abc'') (Some 512), example_item (Some []) (Some 0)])
       ''q1'' Map.empty) ! 1)) = ''results.bqrs''
   \<and> urlPath (analysis_summary.downloadLink (analysisSummaries (mapQueryResult 1000
       (example_index [example_item (Some ''abc'') (Some 512), example_item (Some []) (Some 0)])
       ''q1'' Map.empty) ! 1)) = ''/repos/o/r/artifacts/42''"
proof -
  have h: "(1::nat) < length (successes (example_index
       [example_item (Some ''abc'') (Some 512), example_item (Some []) (Some 0)]))"
    by (simp add: example_index_def)
  show ?thesis
    using h mapQueryResult_summary [OF h, of 1000 "''q1''" Map.empty]
    by (simp add: Let_def example_index_def example_item_def toString_eval)
qed

text \<open>
  C9. \<open>copyRemoteQueryRepoListToClipboard\<close>, for a stored query result: it writes to
  the clipboard if and only if some analysis summary has a positive \<open>resultCount\<close>.
  The text written is the line \<open>"new-repo-list": [\<close>, then one line for the \<open>nwo\<close>
  of every summary with a positive \<open>resultCount\<close>, in the original order, indented,
  quoted and followed by a comma except on the last, then \<open>]\<close>, joined by the end of
  line. Otherwise the clipboard keeps its content. No file changes either way.
\<close>

theorem copyRemoteQueryRepoListToClipboard_effect:
  assumes "getRemoteQueryResult pf qid w = Inr queryResult"
  shows \<open>let repos = map analysis_summary.nwo
                  (filter (\<lambda>a. 0 < analysis_summary.resultCount a) (analysisSummaries queryResult));
              entries = map (\<lambda>i. ''    "'' @ repos ! i @
                               (if Suc i < length repos then ''",'' else ''"''))
                          [0..<length repos];
              text = join_lines (EOL pf) (''"new-repo-list": ['' # entries @ ['']''])
          in \<exists>w'. copyRemoteQueryRepoListToClipboard pf qid w = Inr w'
               \<and> files w' = files w
               \<and> (if \<exists>a \<in> set (analysisSummaries queryResult). 0 < analysis_summary.resultCount a
                   then clipboardWrites (trace w') = clipboardWrites (trace w) @ [text]
                      \<and> clipboard w' = text
                   else clipboardWrites (trace w') = clipboardWrites (trace w)
                      \<and> clipboard w' = clipboard w)\<close>
proof -
  let ?repos = "map analysis_summary.nwo
      (filter (\<lambda>a. 0 < analysis_summary.resultCount a) (analysisSummaries queryResult))"
  have e: "(\<exists>a \<in> set (analysisSummaries queryResult). 0 < analysis_summary.resultCount a) \<longleftrightarrow>
           ?repos \<noteq> []"
    by (simp add: filter_empty_conv)
  show ?thesis
  proof (cases "?repos = []")
    case True
    then show ?thesis
      using assms e by (simp add: copyRemoteQueryRepoListToClipboard_def Let_def)
  next
    case False
    then show ?thesis
      using assms e
      by (simp add: copyRemoteQueryRepoListToClipboard_def Let_def clipboard_writeText_def
          repoListText_entries [OF False] emit_def)
  qed
qed

theorem copyRemoteQueryRepoListToClipboard_effect_witness:
  \<open>(\<exists>w'. copyRemoteQueryRepoListToClipboard
            (example_platform (example_result
               [example_summary ''a/x'' 1000 3, example_summary ''b/y'' 10 0,
                example_summary ''c/z'' 5 2])) ''q1'' stored_world = Inr w'
         \<and> clipboard w' =
             ''"new-repo-list": ['' @ [CHR 0x0A] @ ''    "a/x",'' @ [CHR 0x0A] @
             ''    "c/z"'' @ [CHR 0x0A] @ '']''
         \<and> clipboardWrites (trace w') = [clipboard w'])
   \<and> (\<exists>w'. copyRemoteQueryRepoListToClipboard
            (example_platform (example_result [example_summary ''b/y'' 10 0]))
            ''q1'' stored_world = Inr w'
         \<and> clipboard w' = ''old'' \<and> clipboardWrites (trace w') = [])\<close>
proof -
  let ?r1 = "example_result
               [example_summary ''a/x'' 1000 3, example_summary ''b/y'' 10 0,
                example_summary ''c/z'' 5 2]"
  let ?r2 = "example_result [example_summary ''b/y'' 10 0]"
  have g: "getRemoteQueryResult (example_platform r) ''q1'' stored_world = Inr r" for r
    by (simp add: getRemoteQueryResult_def retrieveJsonFile_def readFile_def Let_def
        example_platform_def stored_world_def)
  have upt: "[0..<2] = [0, Suc 0]" by (simp add: upt_rec)
  show ?thesis
    using copyRemoteQueryRepoListToClipboard_effect [OF g [of ?r1]]
      copyRemoteQueryRepoListToClipboard_effect [OF g [of ?r2]]
    by (auto simp: Let_def example_result_def example_summary_def example_platform_def
        stored_world_def upt)
qed

text \<open>
  C10. With no compare pair set, \<open>showResultsInternal\<close> returns at once and leaves the
  view as it is: nothing is posted and the panel is not touched. \<open>onPanelDispose\<close>
  clears the compare pair, so a \<open>changeCompare\<close> message that arrives after the panel
  is disposed leaves the compare pair unset and posts nothing to the front-end; all it
  does is report the interaction to the telemetry listener, when there is one.
\<close>

theorem no_compare_pair_no_effect:
  "(comparePair v = None \<longrightarrow> showResultsInternal deps selectedResultSetName v = (None, v))
   \<and> comparePair (onPanelDispose v) = None
   \<and> changeTable deps newResultSetName (onPanelDispose v) = (None, onPanelDispose v)
   \<and> (\<exists>v'. onMessage deps (ChangeCompare newResultSetName) (onPanelDispose v) = (None, v')
         \<and> comparePair v' = None
         \<and> postedMessages (effects v') = postedMessages (effects v)
         \<and> effects v' = effects v @
              (if telemetryListener deps
               then [SendUIInteraction ''compare-view-change-table-to-compare''] else []))"
  by (simp add: showResultsInternal_def onPanelDispose_def changeTable_def onMessage_def
      sendUIInteraction_def)

theorem no_compare_pair_no_effect_witness:
  "showResultsInternal (example_deps (Inr ''diff'')) (Some ''edges'') (example_view None) =
     (None, example_view None)
   \<and> changeTable (example_deps (Inr ''diff'')) ''edges''
       (onPanelDispose (example_view (Some example_pair))) = (None, example_view None)
   \<and> (\<exists>v'. onMessage (example_deps (Inr ''diff'')) (ChangeCompare ''edges'')
              (onPanelDispose (example_view (Some example_pair))) = (None, v')
         \<and> comparePair v' = None \<and> postedMessages (effects v') = [])"
proof -
  have c: "comparePair (example_view None :: string compare_view) = None"
    by (simp add: example_view_def)
  show ?thesis
    using c no_compare_pair_no_effect [of "example_view None" "example_deps (Inr ''diff'')"
        "Some ''edges''" "''edges''"]
      no_compare_pair_no_effect [of "example_view (Some example_pair)"
        "example_deps (Inr ''diff'')" "Some ''edges''" "''edges''"]
    by (auto simp: example_view_def onPanelDispose_def)
qed

end
